theory Spec2Isabelle
  imports Complex_Main "HOL-Library.Multiset"
begin

section \<open>Python runtime notions used by \<^verbatim>\<open>actions.py\<close>\<close>

text \<open>
  The module \<^verbatim>\<open>actions/actions.py\<close> holds \<^verbatim>\<open>calculate_distance\<close> and the method
  \<^verbatim>\<open>ActionSearchRealEstate.run\<close>. Strings are byte strings in UTF-8; the separators the
  code splits on are ASCII, so splitting bytes and splitting code points agree.
\<close>

datatype exn = ValueError | IndexError | OtherException string

text \<open>Sequencing of calls that may raise: the first exception wins.\<close>

definition bind_exn :: "exn + 'a \<Rightarrow> ('a \<Rightarrow> exn + 'b) \<Rightarrow> exn + 'b" where
  "bind_exn m k = (case m of Inl e \<Rightarrow> Inl e | Inr v \<Rightarrow> k v)"

text \<open>
  \<^verbatim>\<open>s.split(sep)\<close> for a non-empty separator: scan from the left, cut at every
  non-overlapping occurrence of \<open>sep\<close>. The accumulator \<open>cur\<close> holds the current piece
  reversed. Python raises ValueError for an empty separator; the code only passes
  \<^verbatim>\<open>','\<close> and \<^verbatim>\<open>', '\<close>.
\<close>

function split_from :: "string \<Rightarrow> string \<Rightarrow> string \<Rightarrow> string list" where
  "split_from sep cur [] = [rev cur]"
| "split_from sep cur (c # cs) =
     (if sep \<noteq> [] \<and> take (length sep) (c # cs) = sep
      then rev cur # split_from sep [] (drop (length sep) (c # cs))
      else split_from sep (c # cur) cs)"
  by pat_completeness auto
termination
  by (relation "measure (\<lambda>(sep, cur, s). length s)") (auto simp: neq_Nil_conv)

definition split_str :: "string \<Rightarrow> string \<Rightarrow> string list" where
  "split_str sep s = split_from sep [] s"

text \<open>\<^verbatim>\<open>str(n)\<close> for an integer, as the f-string \<^verbatim>\<open>{rec['score']}\<close> prints it.\<close>

function str_nat :: "nat \<Rightarrow> string" where
  "str_nat n =
     (if n < 10 then [''0123456789'' ! n] else str_nat (n div 10) @ [''0123456789'' ! (n mod 10)])"
  by pat_completeness auto
termination
  by (relation "measure id") auto

definition str_int :: "int \<Rightarrow> string" where
  "str_int i = (if i < 0 then CHR ''-'' # str_nat (nat (- i)) else str_nat (nat i))"

text \<open>
  Python floats and the \<^verbatim>\<open>math\<close> functions are not part of the repository. They are a
  parameter of the model: a record of the operations the code calls, over an arbitrary
  carrier \<open>'f\<close>. \<open>float_of_str\<close> is \<^verbatim>\<open>float(s)\<close> on a string (\<open>None\<close> is ValueError);
  \<^verbatim>\<open>math.sin\<close>, \<^verbatim>\<open>math.cos\<close>, \<^verbatim>\<open>math.sqrt\<close> and \<^verbatim>\<open>**\<close> may raise.
\<close>

record 'f float_lib =
  float_of_str :: "string \<Rightarrow> 'f option"
  float_of_int :: "int \<Rightarrow> 'f"
  f_add :: "'f \<Rightarrow> 'f \<Rightarrow> 'f"
  f_sub :: "'f \<Rightarrow> 'f \<Rightarrow> 'f"
  f_mul :: "'f \<Rightarrow> 'f \<Rightarrow> 'f"
  f_div :: "'f \<Rightarrow> 'f \<Rightarrow> 'f"
  f_pow :: "'f \<Rightarrow> int \<Rightarrow> exn + 'f"
  m_radians :: "'f \<Rightarrow> 'f"
  m_sin :: "'f \<Rightarrow> exn + 'f"
  m_cos :: "'f \<Rightarrow> exn + 'f"
  m_sqrt :: "'f \<Rightarrow> exn + 'f"
  m_atan2 :: "'f \<Rightarrow> 'f \<Rightarrow> 'f"
  f_le :: "'f \<Rightarrow> 'f \<Rightarrow> bool"
  format_1f :: "'f \<Rightarrow> string"

section \<open>String literals of the source\<close>

definition reason_distance_prefix :: string where
  "reason_distance_prefix = [CHR 0xF0, CHR 0x9F, CHR 0x9A, CHR 0xB6] @ '' C'' @ [CHR 0xC3, CHR 0xA1] @ ''ch n'' @ [CHR 0xC6, CHR 0xA1] @ ''i l'' @ [CHR 0xC3, CHR 0xA0] @ ''m vi'' @ [CHR 0xE1, CHR 0xBB, CHR 0x87] @ ''c ''"

definition reason_facility_prefix :: string where
  "reason_facility_prefix = [CHR 0xE2, CHR 0x9C, CHR 0xA8] @ '' C'' @ [CHR 0xC3, CHR 0xB3] @ '' ''"

definition reason_surrounding_prefix :: string where
  "reason_surrounding_prefix = [CHR 0xF0, CHR 0x9F, CHR 0x8F, CHR 0xA2] @ '' G'' @ [CHR 0xE1, CHR 0xBA, CHR 0xA7] @ ''n ''"

definition response_header :: string where
  "response_header = [CHR 0xF0, CHR 0x9F, CHR 0x8F, CHR 0x98, CHR 0xEF, CHR 0xB8, CHR 0x8F] @ '' Danh s'' @ [CHR 0xC3, CHR 0xA1] @ ''ch b'' @ [CHR 0xE1, CHR 0xBA, CHR 0xA5] @ ''t '' @ [CHR 0xC4, CHR 0x91, CHR 0xE1, CHR 0xBB, CHR 0x99] @ ''ng s'' @ [CHR 0xE1, CHR 0xBA, CHR 0xA3] @ ''n '' @ [CHR 0xC4, CHR 0x91, CHR 0xC6, CHR 0xB0, CHR 0xE1, CHR 0xBB, CHR 0xA3] @ ''c '' @ [CHR 0xC4, CHR 0x91, CHR 0xE1, CHR 0xBB, CHR 0x81] @ '' xu'' @ [CHR 0xE1, CHR 0xBA, CHR 0xA5] @ ''t:'' @ [CHR 0x0A, CHR 0x0A]"

definition label_house :: string where
  "label_house = [CHR 0xF0, CHR 0x9F, CHR 0x8F, CHR 0xA0] @ '' ''"

definition label_location :: string where
  "label_location = [CHR 0xF0, CHR 0x9F, CHR 0x93, CHR 0x8D] @ '' V'' @ [CHR 0xE1, CHR 0xBB, CHR 0x8B] @ '' tr'' @ [CHR 0xC3, CHR 0xAD] @ '': ''"

definition label_price :: string where
  "label_price = [CHR 0xF0, CHR 0x9F, CHR 0x92, CHR 0xB0] @ '' Gi'' @ [CHR 0xC3, CHR 0xA1] @ '': ''"

definition label_rooms :: string where
  "label_rooms = [CHR 0xF0, CHR 0x9F, CHR 0x9B, CHR 0x8F, CHR 0xEF, CHR 0xB8, CHR 0x8F] @ '' S'' @ [CHR 0xE1, CHR 0xBB, CHR 0x91] @ '' ph'' @ [CHR 0xC3, CHR 0xB2] @ ''ng ng'' @ [CHR 0xE1, CHR 0xBB, CHR 0xA7] @ '': ''"

definition label_size :: string where
  "label_size = [CHR 0xF0, CHR 0x9F, CHR 0x93, CHR 0x90] @ '' Di'' @ [CHR 0xE1, CHR 0xBB, CHR 0x87] @ ''n t'' @ [CHR 0xC3, CHR 0xAD] @ ''ch: ''"

definition unit_size :: string where
  "unit_size = ''m'' @ [CHR 0xC2, CHR 0xB2, CHR 0x0A]"

definition label_score :: string where
  "label_score = [CHR 0xF0, CHR 0x9F, CHR 0x93, CHR 0x8A] @ '' '' @ [CHR 0xC4, CHR 0x90] @ ''i'' @ [CHR 0xE1, CHR 0xBB, CHR 0x83] @ ''m '' @ [CHR 0xC4, CHR 0x91, CHR 0xC3, CHR 0xA1] @ ''nh gi'' @ [CHR 0xC3, CHR 0xA1] @ '': ''"

definition label_reasons :: string where
  "label_reasons = [CHR 0xF0, CHR 0x9F, CHR 0x93, CHR 0x9D] @ '' L'' @ [CHR 0xC3, CHR 0xBD] @ '' do '' @ [CHR 0xC4, CHR 0x91, CHR 0xE1, CHR 0xBB, CHR 0x81] @ '' xu'' @ [CHR 0xE1, CHR 0xBA, CHR 0xA5] @ ''t:'' @ [CHR 0x0A]"

definition msg_no_results :: string where
  "msg_no_results = [CHR 0xE2, CHR 0x9D, CHR 0x8C] @ '' Kh'' @ [CHR 0xC3, CHR 0xB4] @ ''ng t'' @ [CHR 0xC3, CHR 0xAC] @ ''m th'' @ [CHR 0xE1, CHR 0xBA, CHR 0xA5] @ ''y b'' @ [CHR 0xE1, CHR 0xBA, CHR 0xA5] @ ''t '' @ [CHR 0xC4, CHR 0x91, CHR 0xE1, CHR 0xBB, CHR 0x99] @ ''ng s'' @ [CHR 0xE1, CHR 0xBA, CHR 0xA3] @ ''n n'' @ [CHR 0xC3, CHR 0xA0] @ ''o ph'' @ [CHR 0xC3, CHR 0xB9] @ '' h'' @ [CHR 0xE1, CHR 0xBB, CHR 0xA3] @ ''p v'' @ [CHR 0xE1, CHR 0xBB, CHR 0x9B] @ ''i y'' @ [CHR 0xC3, CHR 0xAA] @ ''u c'' @ [CHR 0xE1, CHR 0xBA, CHR 0xA7] @ ''u c'' @ [CHR 0xE1, CHR 0xBB, CHR 0xA7] @ ''a b'' @ [CHR 0xE1, CHR 0xBA, CHR 0xA1] @ ''n.''"

definition msg_query_error :: string where
  "msg_query_error = [CHR 0xE2, CHR 0x9D, CHR 0x8C] @ '' L'' @ [CHR 0xE1, CHR 0xBB, CHR 0x97] @ ''i khi truy v'' @ [CHR 0xE1, CHR 0xBA, CHR 0xA5] @ ''n d'' @ [CHR 0xE1, CHR 0xBB, CHR 0xAF] @ '' li'' @ [CHR 0xE1, CHR 0xBB, CHR 0x87] @ ''u b'' @ [CHR 0xE1, CHR 0xBA, CHR 0xA5] @ ''t '' @ [CHR 0xC4, CHR 0x91, CHR 0xE1, CHR 0xBB, CHR 0x99] @ ''ng s'' @ [CHR 0xE1, CHR 0xBA, CHR 0xA3] @ ''n: ''"

section \<open>\<^verbatim>\<open>calculate_distance\<close>\<close>

text \<open>
  The haversine formula on a sphere of radius 6371, in the order the source evaluates it.
  The caller passes floats, on which the inner \<^verbatim>\<open>float(...)\<close> calls are the identity.
\<close>

definition calculate_distance ::
  "'f float_lib \<Rightarrow> 'f \<Rightarrow> 'f \<Rightarrow> 'f \<Rightarrow> 'f \<Rightarrow> exn + 'f" where
  "calculate_distance L lat1 lon1 lat2 lon2 =
     (let R = float_of_int L 6371;
          lat1 = m_radians L lat1; lon1 = m_radians L lon1;
          lat2 = m_radians L lat2; lon2 = m_radians L lon2;
          dlat = f_sub L lat2 lat1;
          dlon = f_sub L lon2 lon1
      in bind_exn (m_sin L (f_div L dlat (float_of_int L 2))) (\<lambda>s1.
         bind_exn (f_pow L s1 2) (\<lambda>p1.
         bind_exn (m_cos L lat1) (\<lambda>c1.
         bind_exn (m_cos L lat2) (\<lambda>c2.
         bind_exn (m_sin L (f_div L dlon (float_of_int L 2))) (\<lambda>s2.
         bind_exn (f_pow L s2 2) (\<lambda>p2.
           let a = f_add L p1 (f_mul L (f_mul L c1 c2) p2)
           in bind_exn (m_sqrt L a) (\<lambda>r1.
              bind_exn (m_sqrt L (f_sub L (float_of_int L 1) a)) (\<lambda>r2.
                let c = f_mul L (float_of_int L 2) (m_atan2 L r1 r2);
                    distance = f_mul L R c
                in Inr distance)))))))))"

section \<open>\<^verbatim>\<open>ActionSearchRealEstate.run\<close>\<close>

text \<open>
  One element of \<^verbatim>\<open>results["results"]["bindings"]\<close>: a dictionary from variable names to
  bindings. Every binding of the SPARQL JSON format carries a string under \<^verbatim>\<open>'value'\<close>, so
  a row is modelled as the map from the variable name to that string; an unbound variable
  is absent from the map.
\<close>

type_synonym result = "string \<rightharpoonup> string"

text \<open>The dictionary \<^verbatim>\<open>project_info\<close>; its keys are fixed, so it is a record.\<close>

record project_info =
  project_name :: string
  type' :: string
  location :: string
  price :: string
  rooms :: string
  size' :: string
  score :: int
  reasons :: "string list"

text \<open>\<^verbatim>\<open>tracker.get_slot(k) or d\<close>: an unset slot is \<open>None\<close>, and the empty string is falsy too.\<close>

definition slot_or :: "string option \<Rightarrow> string \<Rightarrow> string" where
  "slot_or slot d = (case slot of None \<Rightarrow> d | Some v \<Rightarrow> if v = [] then d else v)"

definition user_lat_of :: "string option \<Rightarrow> string" where
  "user_lat_of work_latitude = slot_or work_latitude ''10.848''"

definition user_lon_of :: "string option \<Rightarrow> string" where
  "user_lon_of work_longitude = slot_or work_longitude ''106.787''"

text \<open>\<^verbatim>\<open>result.get(k, {}).get('value', d)\<close>\<close>

definition get_value :: "result \<Rightarrow> string \<Rightarrow> string \<Rightarrow> string" where
  "get_value result k d = (case result k of None \<Rightarrow> d | Some v \<Rightarrow> v)"

definition to_float :: "'f float_lib \<Rightarrow> string \<Rightarrow> exn + 'f" where
  "to_float L s = (case float_of_str L s of None \<Rightarrow> Inl ValueError | Some x \<Rightarrow> Inr x)"

text \<open>
  The body of the inner \<^verbatim>\<open>try\<close> (lines 106 to 117), started with \<^verbatim>\<open>score = 0\<close> and
  \<^verbatim>\<open>reasons = []\<close>: the pair it leaves, or the exception it raises.
\<close>

definition score_distance ::
  "'f float_lib \<Rightarrow> string \<Rightarrow> string \<Rightarrow> result \<Rightarrow> exn + (int \<times> string list)" where
  "score_distance L user_lat user_lon result =
     (case result ''geo'' of
        None \<Rightarrow> Inr (0, [])
      | Some geo \<Rightarrow>
          (let geo_parts = split_str '','' geo
           in if length geo_parts = 2
              then (let lat = geo_parts ! 0; lon = geo_parts ! 1
                    in bind_exn (to_float L user_lat) (\<lambda>a1.
                       bind_exn (to_float L user_lon) (\<lambda>a2.
                       bind_exn (to_float L lat) (\<lambda>a3.
                       bind_exn (to_float L lon) (\<lambda>a4.
                       bind_exn (calculate_distance L a1 a2 a3 a4) (\<lambda>distance.
                         if f_le L distance (float_of_int L 5)
                         then Inr (0 + 1, [] @ [reason_distance_prefix @ format_1f L distance @ ''km''])
                         else Inr (0, [])))))))
              else Inr (0, [])))"

definition score_facilities :: "result \<Rightarrow> int \<times> string list \<Rightarrow> int \<times> string list" where
  "score_facilities result sr =
     (case result ''all_facilities'' of
        None \<Rightarrow> sr
      | Some v \<Rightarrow>
          (let facilities = split_str '', '' v
           in (fst sr + int (length facilities),
               snd sr @ map (\<lambda>facility. reason_facility_prefix @ facility) facilities)))"

definition score_surroundings :: "result \<Rightarrow> int \<times> string list \<Rightarrow> int \<times> string list" where
  "score_surroundings result sr =
     (case result ''all_surroundings'' of
        None \<Rightarrow> sr
      | Some v \<Rightarrow>
          (let surroundings = split_str '', '' v
           in (fst sr + int (length surroundings),
               snd sr @ map (\<lambda>surrounding. reason_surrounding_prefix @ surrounding) surroundings)))"

definition make_project_info :: "result \<Rightarrow> int \<times> string list \<Rightarrow> project_info" where
  "make_project_info result sr =
     \<lparr> project_name = get_value result ''project_name'' ''N/A'',
       type' = get_value result ''type_name'' ''N/A'',
       location = get_value result ''ward_name'' '''' @ '', '' @
                  get_value result ''area_name'' '''' @ '', '' @
                  get_value result ''region_name'' '''',
       price = get_value result ''price'' ''N/A'',
       rooms = get_value result ''rooms'' ''N/A'',
       size' = get_value result ''size'' ''N/A'',
       score = fst sr,
       reasons = snd sr \<rparr>"

text \<open>One pass through the loop body for a row that is not skipped.\<close>

definition score_result ::
  "'f float_lib \<Rightarrow> string \<Rightarrow> string \<Rightarrow> result \<Rightarrow> exn + project_info" where
  "score_result L user_lat user_lon result =
     bind_exn (score_distance L user_lat user_lon result) (\<lambda>sr.
       Inr (make_project_info result (score_surroundings result (score_facilities result sr))))"

text \<open>
  The loop over the bindings. \<^verbatim>\<open>except (ValueError, IndexError): continue\<close> goes to the next
  row without appending; any other exception leaves the loop for the outer handler, which
  prints \<^verbatim>\<open>str(e)\<close>.
\<close>

fun for_results ::
  "'f float_lib \<Rightarrow> string \<Rightarrow> string \<Rightarrow> result list \<Rightarrow> project_info list \<Rightarrow> string + project_info list" where
  "for_results L user_lat user_lon [] recommendations = Inr recommendations"
| "for_results L user_lat user_lon (result # rest) recommendations =
     (case score_result L user_lat user_lon result of
        Inl ValueError \<Rightarrow> for_results L user_lat user_lon rest recommendations
      | Inl IndexError \<Rightarrow> for_results L user_lat user_lon rest recommendations
      | Inl (OtherException msg) \<Rightarrow> Inl msg
      | Inr info \<Rightarrow> for_results L user_lat user_lon rest (recommendations @ [info]))"

text \<open>
  \<^verbatim>\<open>recommendations.sort(key=lambda x: x['score'], reverse=True)\<close>. Python's sort is stable,
  and \<^verbatim>\<open>reverse=True\<close> keeps equal keys in their original order; the stable sort of a list
  by a key is unique, so it is the stable insertion sort on the negated score.
\<close>

definition sort_recommendations :: "project_info list \<Rightarrow> project_info list" where
  "sort_recommendations recommendations = sort_key (\<lambda>x. - score x) recommendations"

fun add_reasons :: "string \<Rightarrow> string list \<Rightarrow> string" where
  "add_reasons response [] = response"
| "add_reasons response (reason # rest) = add_reasons (response @ ''  '' @ reason @ [CHR 0x0A]) rest"

definition add_entry :: "string \<Rightarrow> project_info \<Rightarrow> string" where
  "add_entry response rec =
     add_reasons
       (response
        @ (label_house @ project_name rec @ '' ('' @ type' rec @ '')'' @ [CHR 0x0A])
        @ (label_location @ location rec @ [CHR 0x0A])
        @ (label_price @ price rec @ '' VND'' @ [CHR 0x0A])
        @ (label_rooms @ rooms rec @ [CHR 0x0A])
        @ (label_size @ size' rec @ unit_size)
        @ (label_score @ str_int (score rec) @ [CHR 0x0A])
        @ label_reasons)
       (reasons rec)
     @ [CHR 0x0A]"

fun add_entries :: "string \<Rightarrow> project_info list \<Rightarrow> string" where
  "add_entries response [] = response"
| "add_entries response (rec # rest) = add_entries (add_entry response rec) rest"

text \<open>Lines 151 to 165: the header, the entries of \<^verbatim>\<open>recommendations[:5]\<close>, the empty case.\<close>

definition build_response :: "project_info list \<Rightarrow> string" where
  "build_response recommendations =
     (let response = add_entries response_header (take 5 recommendations)
      in if recommendations = [] then msg_no_results else response)"

text \<open>
  The whole method, as the text it hands to \<^verbatim>\<open>dispatcher.utter_message\<close>. \<open>fetched\<close> is what
  \<^verbatim>\<open>fetch_data(...)["results"]["bindings"]\<close> gives: the rows, or \<open>Inl\<close> of the message of the
  exception it raised. The method itself always returns the empty list.
\<close>

definition run ::
  "'f float_lib \<Rightarrow> string option \<Rightarrow> string option \<Rightarrow> string + result list \<Rightarrow> string" where
  "run L work_latitude work_longitude fetched =
     (let user_lat = user_lat_of work_latitude;
          user_lon = user_lon_of work_longitude
      in case fetched of
           Inl e \<Rightarrow> msg_query_error @ e
         | Inr bindings \<Rightarrow>
             (case for_results L user_lat user_lon bindings [] of
                Inl e \<Rightarrow> msg_query_error @ e
              | Inr recommendations \<Rightarrow> build_response (sort_recommendations recommendations)))"

section \<open>Notions the properties are stated with\<close>

text \<open>
  The items of the two aggregated fields, as the specification counts them: the pieces of
  the value split on \<^verbatim>\<open>", "\<close>, and none when the binding is absent.
\<close>

definition spec_facilities :: "result \<Rightarrow> string list" where
  "spec_facilities result =
     (case result ''all_facilities'' of None \<Rightarrow> [] | Some v \<Rightarrow> split_str '', '' v)"

definition spec_surroundings :: "result \<Rightarrow> string list" where
  "spec_surroundings result =
     (case result ''all_surroundings'' of None \<Rightarrow> [] | Some v \<Rightarrow> split_str '', '' v)"

text \<open>
  The specification's distance test: the geo value has exactly two components, the two
  components and the two reference strings parse, the distance is computed, and it is at
  most 5.
\<close>

definition spec_within_5km :: "'f float_lib \<Rightarrow> string \<Rightarrow> string \<Rightarrow> result \<Rightarrow> bool" where
  "spec_within_5km L user_lat user_lon result =
     (case result ''geo'' of
        None \<Rightarrow> False
      | Some geo \<Rightarrow>
          (case split_str '','' geo of
             [lat, lon] \<Rightarrow>
               (case (float_of_str L user_lat, float_of_str L user_lon,
                      float_of_str L lat, float_of_str L lon) of
                  (Some a1, Some a2, Some a3, Some a4) \<Rightarrow>
                    (case calculate_distance L a1 a2 a3 a4 of
                       Inl e \<Rightarrow> False
                     | Inr d \<Rightarrow> f_le L d (float_of_int L 5))
                | _ \<Rightarrow> False)
           | _ \<Rightarrow> False))"

text \<open>The rows of a batch that the loop scores, in order, with what it appends for each.\<close>

definition scored :: "'f float_lib \<Rightarrow> string \<Rightarrow> string \<Rightarrow> result \<Rightarrow> project_info option" where
  "scored L user_lat user_lon result =
     (case score_result L user_lat user_lon result of Inl e \<Rightarrow> None | Inr info \<Rightarrow> Some info)"

text \<open>The text one entry adds to the response.\<close>

definition entry_text :: "project_info \<Rightarrow> string" where
  "entry_text rec = add_entry [] rec"

subsection \<open>An exact interpretation of the float library\<close>

text \<open>
  The theorems below hold for every \<open>float_lib\<close>. To run the model on concrete rows, the
  library is read over the reals, without rounding, infinities or NaN: \<open>decimal_of_str\<close>
  accepts a sign, digits and one optional point, \<^verbatim>\<open>math.sqrt\<close> raises on a negative
  argument, \<open>fixed_1\<close> prints one decimal.
\<close>

fun digits_value :: "nat \<Rightarrow> string \<Rightarrow> nat option" where
  "digits_value acc [] = Some acc"
| "digits_value acc (c # cs) =
     (let v = (of_char c :: nat)
      in if 48 \<le> v \<and> v \<le> 57 then digits_value (10 * acc + (v - 48)) cs else None)"

definition decimal_of_str :: "string \<Rightarrow> real option" where
  "decimal_of_str s =
     (let neg = (take 1 s = ''-'');
          body = (if take 1 s = ''-'' \<or> take 1 s = ''+'' then drop 1 s else s);
          ip = takeWhile (\<lambda>c. c \<noteq> CHR ''.'') body;
          fp = drop 1 (dropWhile (\<lambda>c. c \<noteq> CHR ''.'') body)
      in if ip @ fp = [] then None
         else (case digits_value 0 (ip @ fp) of
                 None \<Rightarrow> None
               | Some n \<Rightarrow> Some ((if neg then - 1 else 1) * real n / 10 ^ length fp)))"

definition atan2_real :: "real \<Rightarrow> real \<Rightarrow> real" where
  "atan2_real y x =
     (if 0 < x then arctan (y / x)
      else if x < 0 \<and> 0 \<le> y then arctan (y / x) + pi
      else if x < 0 then arctan (y / x) - pi
      else if 0 < y then pi / 2
      else if y < 0 then - pi / 2
      else 0)"

definition fixed_1 :: "real \<Rightarrow> string" where
  "fixed_1 x =
     (let n = round (x * 10)
      in (if n < 0 then ''-'' else '''') @ str_nat (nat \<bar>n\<bar> div 10) @ ''.'' @ str_nat (nat \<bar>n\<bar> mod 10))"

definition exact_lib :: "real float_lib" where
  "exact_lib =
     \<lparr> float_of_str = decimal_of_str,
       float_of_int = real_of_int,
       f_add = (+), f_sub = (-), f_mul = (*), f_div = (/),
       f_pow = (\<lambda>x n. Inr (x powi n)),
       m_radians = (\<lambda>x. x * pi / 180),
       m_sin = (\<lambda>x. Inr (sin x)),
       m_cos = (\<lambda>x. Inr (cos x)),
       m_sqrt = (\<lambda>x. if x < 0 then Inl ValueError else Inr (sqrt x)),
       m_atan2 = atan2_real,
       f_le = (\<le>),
       format_1f = fixed_1 \<rparr>"

subsection \<open>Binary64 arithmetic\<close>

text \<open>
  Python floats are IEEE 754 binary64 numbers. Each one is a rational, and the basic
  operations return the exact result rounded to the nearest binary64 number, ties to the
  even significand. \<open>round_binary64\<close> is that rounding on the normal range, which holds
  every value met below; \<open>deg_to_rad\<close> is the binary64 number nearest to \<open>pi / 180\<close>, by
  which \<^verbatim>\<open>math.radians\<close> multiplies.
\<close>

definition round_half_even :: "real \<Rightarrow> int" where
  "round_half_even x =
     (let f = \<lfloor>x\<rfloor>; d = x - of_int f
      in if d < 1 / 2 then f else if 1 / 2 < d then f + 1 else if even f then f else f + 1)"

definition round_binary64 :: "real \<Rightarrow> real" where
  "round_binary64 x =
     (if x = 0 then 0
      else (let e = \<lfloor>log 2 \<bar>x\<bar>\<rfloor>
            in of_int (round_half_even (x * 2 powr (52 - of_int e))) * 2 powr (of_int e - 52)))"

definition deg_to_rad :: real where
  "deg_to_rad = 5030569068109113 / 288230376151711744"

text \<open>
  A library whose arithmetic is the binary64 one: the four operations, the conversion of
  an integer, \<^verbatim>\<open>math.radians\<close> and \<^verbatim>\<open>math.sqrt\<close>, which IEEE 754 rounds correctly and which
  raises ValueError on a negative argument. The code divides by the literal 2 only, so
  division by zero is left out.
\<close>

definition ieee_arith :: "real float_lib \<Rightarrow> bool" where
  "ieee_arith L \<longleftrightarrow>
     float_of_int L = (\<lambda>n. round_binary64 (of_int n)) \<and>
     f_add L = (\<lambda>x y. round_binary64 (x + y)) \<and>
     f_sub L = (\<lambda>x y. round_binary64 (x - y)) \<and>
     f_mul L = (\<lambda>x y. round_binary64 (x * y)) \<and>
     f_div L = (\<lambda>x y. round_binary64 (x / y)) \<and>
     m_radians L = (\<lambda>x. round_binary64 (x * deg_to_rad)) \<and>
     m_sqrt L = (\<lambda>x. if x < 0 then Inl ValueError else Inr (round_binary64 (sqrt x)))"

text \<open>
  IEEE 754 does not fix the results of \<^verbatim>\<open>sin\<close>, \<^verbatim>\<open>cos\<close> and \<^verbatim>\<open>pow\<close>. These are the values
  that CPython's \<^verbatim>\<open>math\<close> module returns at the five arguments that the computation of the
  distance from (8.061, -6.275) to (-8.061, 173.725) reaches:
  \<^verbatim>\<open>sin(-0.1406909910032629) = -0.14022731162073254\<close>,
  \<^verbatim>\<open>(-0.14022731162073254)**2 = 0.019663698924378033\<close>,
  \<^verbatim>\<open>cos(0.1406909910032629) = cos(-0.1406909910032629) = 0.9901193367850272\<close>,
  \<^verbatim>\<open>sin(1.5707963267948966) = 1.0\<close> and \<^verbatim>\<open>1.0**2 = 1.0\<close>.
\<close>

definition libm_observed :: "real float_lib \<Rightarrow> bool" where
  "libm_observed L \<longleftrightarrow>
     m_sin L (- 5068927157253445 / 36028797018963968) = Inr (- 1263055336724595 / 9007199254740992) \<and>
     f_pow L (- 1263055336724595 / 9007199254740992) 2 = Inr (2833837668753745 / 144115188075855872) \<and>
     m_cos L (5068927157253445 / 36028797018963968) = Inr (4459101076197371 / 4503599627370496) \<and>
     m_cos L (- 5068927157253445 / 36028797018963968) = Inr (4459101076197371 / 4503599627370496) \<and>
     m_sin L (884279719003555 / 562949953421312) = Inr 1 \<and>
     f_pow L 1 2 = Inr 1"

text \<open>
  A library with binary64 arithmetic to run the model on: \<^verbatim>\<open>sin\<close> and \<^verbatim>\<open>cos\<close> take the
  values above at those arguments and their negatives, and the correctly rounded value
  elsewhere.
\<close>

definition binary64_lib :: "real float_lib" where
  "binary64_lib =
     \<lparr> float_of_str = (\<lambda>s. map_option round_binary64 (decimal_of_str s)),
       float_of_int = (\<lambda>n. round_binary64 (of_int n)),
       f_add = (\<lambda>x y. round_binary64 (x + y)),
       f_sub = (\<lambda>x y. round_binary64 (x - y)),
       f_mul = (\<lambda>x y. round_binary64 (x * y)),
       f_div = (\<lambda>x y. round_binary64 (x / y)),
       f_pow = (\<lambda>x n. Inr (round_binary64 (x powi n))),
       m_radians = (\<lambda>x. round_binary64 (x * deg_to_rad)),
       m_sin = (\<lambda>x. Inr (if \<bar>x\<bar> = 5068927157253445 / 36028797018963968 then sgn x * (1263055336724595 / 9007199254740992)
                          else if \<bar>x\<bar> = 884279719003555 / 562949953421312 then sgn x
                          else round_binary64 (sin x))),
       m_cos = (\<lambda>x. Inr (if \<bar>x\<bar> = 5068927157253445 / 36028797018963968 then 4459101076197371 / 4503599627370496
                          else round_binary64 (cos x))),
       m_sqrt = (\<lambda>x. if x < 0 then Inl ValueError else Inr (round_binary64 (sqrt x))),
       m_atan2 = (\<lambda>y x. round_binary64 (atan2_real y x)),
       f_le = (\<le>),
       format_1f = fixed_1 \<rparr>"

text \<open>
  The laws under which the distance is symmetric: there is a negation for which
  subtraction is antisymmetric, halving and the sine are odd and squaring is even,
  multiplication commutes, and the cosine raises nothing but ValueError.
\<close>

definition symmetry_laws :: "'f float_lib \<Rightarrow> ('f \<Rightarrow> 'f) \<Rightarrow> bool" where
  "symmetry_laws L neg \<longleftrightarrow>
     (\<forall>x y. f_sub L x y = neg (f_sub L y x)) \<and>
     (\<forall>x. f_div L (neg x) (float_of_int L 2) = neg (f_div L x (float_of_int L 2))) \<and>
     (\<forall>x. m_sin L (neg x) = map_sum id neg (m_sin L x)) \<and>
     (\<forall>x. f_pow L (neg x) 2 = f_pow L x 2) \<and>
     (\<forall>x y. f_mul L x y = f_mul L y x) \<and>
     (\<forall>x e. m_cos L x = Inl e \<longrightarrow> e = ValueError)"


section \<open>Basic facts\<close>

lemma split_str_empty: "split_str sep [] = [[]]"
  by (simp add: split_str_def)

lemma split_from_nonempty: "split_from sep cur s \<noteq> []"
  by (induction sep cur s rule: split_from.induct) auto

lemma length_two_conv: "length xs = 2 \<longleftrightarrow> (\<exists>a b. xs = [a, b])"
  by (cases xs; cases "tl xs") auto

lemma score_facilities_eq:
  "score_facilities result sr =
     (fst sr + int (length (spec_facilities result)),
      snd sr @ map (\<lambda>facility. reason_facility_prefix @ facility) (spec_facilities result))"
  by (simp add: score_facilities_def spec_facilities_def Let_def split: option.splits)

lemma score_surroundings_eq:
  "score_surroundings result sr =
     (fst sr + int (length (spec_surroundings result)),
      snd sr @ map (\<lambda>surrounding. reason_surrounding_prefix @ surrounding) (spec_surroundings result))"
  by (simp add: score_surroundings_def spec_surroundings_def Let_def split: option.splits)

text \<open>The distance step leaves either nothing or one point with one reason.\<close>

lemma score_distance_cases:
  assumes "score_distance L user_lat user_lon result = Inr sr"
  shows "(spec_within_5km L user_lat user_lon result \<and> fst sr = 1 \<and> length (snd sr) = 1)
       \<or> (\<not> spec_within_5km L user_lat user_lon result \<and> sr = (0, []))"
proof (cases "result ''geo''")
  case None
  with assms show ?thesis
    by (simp add: score_distance_def spec_within_5km_def)
next
  case (Some geo)
  show ?thesis
  proof (cases "length (split_str '','' geo) = 2")
    case False
    then have "\<not> (\<exists>a b. split_str '','' geo = [a, b])"
      by (simp add: length_two_conv)
    then have "\<not> spec_within_5km L user_lat user_lon result"
      by (auto simp: spec_within_5km_def Some split: list.splits)
    with assms Some False show ?thesis
      by (simp add: score_distance_def)
  next
    case True
    then obtain lat lon where parts: "split_str '','' geo = [lat, lon]"
      by (auto simp: length_two_conv)
    with assms Some show ?thesis
      by (auto simp: score_distance_def spec_within_5km_def to_float_def bind_exn_def
               split: option.splits sum.splits if_splits)
  qed
qed

lemma score_result_Inr:
  assumes "score_result L user_lat user_lon result = Inr info"
  obtains sr where "score_distance L user_lat user_lon result = Inr sr"
    and "info = make_project_info result (score_surroundings result (score_facilities result sr))"
  using assms by (auto simp: score_result_def bind_exn_def split: sum.splits)

lemma score_make_project_info:
  "score (make_project_info result (score_surroundings result (score_facilities result sr))) =
     fst sr + int (length (spec_facilities result)) + int (length (spec_surroundings result))"
  by (simp add: make_project_info_def score_surroundings_eq score_facilities_eq)

lemma reasons_make_project_info:
  "reasons (make_project_info result (score_surroundings result (score_facilities result sr))) =
     snd sr @ map (\<lambda>facility. reason_facility_prefix @ facility) (spec_facilities result)
            @ map (\<lambda>surrounding. reason_surrounding_prefix @ surrounding) (spec_surroundings result)"
  by (simp add: make_project_info_def score_surroundings_eq score_facilities_eq)

text \<open>The distance step reads only the geo binding, the other two steps only their own.\<close>

lemma score_distance_cong:
  "result' ''geo'' = result ''geo'' \<Longrightarrow>
   score_distance L user_lat user_lon result' = score_distance L user_lat user_lon result"
  by (simp add: score_distance_def)

lemma spec_items_cong:
  "result' ''all_facilities'' = result ''all_facilities'' \<Longrightarrow> spec_facilities result' = spec_facilities result"
  "result' ''all_surroundings'' = result ''all_surroundings'' \<Longrightarrow> spec_surroundings result' = spec_surroundings result"
  by (simp_all add: spec_facilities_def spec_surroundings_def)

lemma exact_distance_same_point: "calculate_distance exact_lib x y x y = Inr 0"
  by (simp add: calculate_distance_def exact_lib_def bind_exn_def atan2_real_def)

lemma exact_float_of_str [simp]: "float_of_str exact_lib = decimal_of_str"
  and exact_f_le [simp]: "f_le exact_lib = (\<le>)"
  and exact_float_of_int [simp]: "float_of_int exact_lib = real_of_int"
  and exact_format_1f [simp]: "format_1f exact_lib = fixed_1"
  by (simp_all add: exact_lib_def)

section \<open>Scoring\<close>

text \<open>
  C1. For every row that the loop scores (the distance step raises nothing), the score
  is not negative and equals 1 if the parsed coordinate is within 5 km of the reference
  point and 0 otherwise, plus the number of facility items, plus the number of
  surrounding items. Setting or removing the price, rooms and size bindings leaves the
  score as it is.
\<close>

theorem score_is_distance_point_plus_items:
  assumes "score_result L user_lat user_lon result = Inr info"
  shows "0 \<le> score info
       \<and> score info = (if spec_within_5km L user_lat user_lon result then 1 else 0)
                      + int (length (spec_facilities result))
                      + int (length (spec_surroundings result))
       \<and> (\<forall>p r s. map_sum id score
                     (score_result L user_lat user_lon
                        (result(''price'' := p, ''rooms'' := r, ''size'' := s)))
                   = Inr (score info))"
proof -
  from assms obtain sr where
    d: "score_distance L user_lat user_lon result = Inr sr" and
    i: "info = make_project_info result (score_surroundings result (score_facilities result sr))"
    by (rule score_result_Inr)
  have pt: "fst sr = (if spec_within_5km L user_lat user_lon result then 1 else 0)"
    using score_distance_cases [OF d] by auto
  have formula: "score info = (if spec_within_5km L user_lat user_lon result then 1 else 0)
                      + int (length (spec_facilities result))
                      + int (length (spec_surroundings result))"
    by (simp only: i score_make_project_info pt)
  have indep: "map_sum id score
                 (score_result L user_lat user_lon
                    (result(''price'' := p, ''rooms'' := r, ''size'' := s)))
               = Inr (score info)" for p r s
  proof -
    let ?r' = "result(''price'' := p, ''rooms'' := r, ''size'' := s)"
    have "score_distance L user_lat user_lon ?r' = score_distance L user_lat user_lon result"
      by (rule score_distance_cong) simp
    with d have "score_distance L user_lat user_lon ?r' = Inr sr"
      by simp
    moreover have "spec_facilities ?r' = spec_facilities result"
      by (rule spec_items_cong) simp
    moreover have "spec_surroundings ?r' = spec_surroundings result"
      by (rule spec_items_cong) simp
    ultimately show ?thesis
      by (simp add: score_result_def bind_exn_def score_make_project_info i)
  qed
  from formula indep show ?thesis by simp
qed

theorem score_is_distance_point_plus_items_witness:
  "\<exists>info. score_result exact_lib ''10.848'' ''106.787''
            [''geo'' \<mapsto> ''10.848,106.787'', ''all_facilities'' \<mapsto> ''Pool, Gym'',
             ''all_surroundings'' \<mapsto> ''Park'', ''price'' \<mapsto> ''2500''] = Inr info
        \<and> 0 \<le> score info \<and> score info = 1 + 2 + 1
        \<and> map_sum id score
            (score_result exact_lib ''10.848'' ''106.787''
               ([''geo'' \<mapsto> ''10.848,106.787'', ''all_facilities'' \<mapsto> ''Pool, Gym'',
                 ''all_surroundings'' \<mapsto> ''Park'', ''price'' \<mapsto> ''2500'']
                (''price'' := None, ''rooms'' := Some ''3'', ''size'' := None))) = Inr 4"
proof -
  let ?row = "[''geo'' \<mapsto> ''10.848,106.787'', ''all_facilities'' \<mapsto> ''Pool, Gym'',
               ''all_surroundings'' \<mapsto> ''Park'', ''price'' \<mapsto> ''2500'']"
  have parts: "split_str '','' ''10.848,106.787'' = [''10.848'', ''106.787'']"
    by (simp add: split_str_def)
  have lat: "decimal_of_str ''10.848'' = Some (10848 / 1000)"
    and lon: "decimal_of_str ''106.787'' = Some (106787 / 1000)"
    by (simp_all add: decimal_of_str_def)
  have d: "score_distance exact_lib ''10.848'' ''106.787'' ?row
           = Inr (1, [reason_distance_prefix @ ''0.0'' @ ''km''])"
    by (simp add: score_distance_def parts to_float_def lat lon bind_exn_def
                  exact_distance_same_point fixed_1_def)
  then obtain info where ev: "score_result exact_lib ''10.848'' ''106.787'' ?row = Inr info"
    by (simp add: score_result_def bind_exn_def)
  have near: "spec_within_5km exact_lib ''10.848'' ''106.787'' ?row"
    by (simp add: spec_within_5km_def parts lat lon exact_distance_same_point)
  have fac: "spec_facilities ?row = [''Pool'', ''Gym'']"
    by (simp add: spec_facilities_def split_str_def)
  have sur: "spec_surroundings ?row = [''Park'']"
    by (simp add: spec_surroundings_def split_str_def)
  note main = score_is_distance_point_plus_items [OF ev]
  from main near fac sur have nonneg: "0 \<le> score info" and four: "score info = 4"
    by simp_all
  from main have "map_sum id score
            (score_result exact_lib ''10.848'' ''106.787''
               (?row(''price'' := None, ''rooms'' := Some ''3'', ''size'' := None))) = Inr (score info)"
    by blast
  with nonneg four have "0 \<le> score info" and "score info = 4"
    and "map_sum id score
            (score_result exact_lib ''10.848'' ''106.787''
               (?row(''price'' := None, ''rooms'' := Some ''3'', ''size'' := None))) = Inr 4"
    by simp_all
  with ev show ?thesis by simp
qed

section \<open>The loop over the bindings\<close>

lemma for_results_scored:
  "for_results L user_lat user_lon bindings acc = Inr recommendations \<Longrightarrow>
   recommendations = acc @ List.map_filter (scored L user_lat user_lon) bindings"
proof (induction bindings arbitrary: acc)
  case Nil
  then show ?case by (simp add: List.map_filter_simps)
next
  case (Cons result rest)
  show ?case
  proof (cases "score_result L user_lat user_lon result")
    case (Inr info)
    with Cons.prems have "for_results L user_lat user_lon rest (acc @ [info]) = Inr recommendations"
      by simp
    from Cons.IH [OF this] Inr show ?thesis
      by (simp add: List.map_filter_simps scored_def)
  next
    case (Inl e)
    with Cons.prems have "for_results L user_lat user_lon rest acc = Inr recommendations"
      by (cases e) simp_all
    from Cons.IH [OF this] Inl show ?thesis
      by (simp add: List.map_filter_simps scored_def)
  qed
qed

lemma for_results_keeps_scored:
  assumes "for_results L user_lat user_lon bindings [] = Inr recommendations"
    and "result \<in> set bindings"
    and "score_result L user_lat user_lon result = Inr info"
  shows "info \<in> set recommendations"
proof -
  have "scored L user_lat user_lon result = Some info"
    using assms(3) by (simp add: scored_def)
  with assms(2) have "info \<in> set (List.map_filter (scored L user_lat user_lon) bindings)"
    by (force simp: List.map_filter_def)
  with for_results_scored [OF assms(1)] show ?thesis by simp
qed

lemma for_results_only_scored:
  assumes "for_results L user_lat user_lon bindings [] = Inr recommendations"
    and "info \<in> set recommendations"
  shows "\<exists>result \<in> set bindings. score_result L user_lat user_lon result = Inr info"
proof -
  from for_results_scored [OF assms(1)] assms(2)
  have "info \<in> set (List.map_filter (scored L user_lat user_lon) bindings)" by simp
  then obtain result where "result \<in> set bindings" "scored L user_lat user_lon result = Some info"
    by (auto simp: List.map_filter_def)
  then show ?thesis
    by (auto simp: scored_def split: sum.splits)
qed

lemma score_result_counts_reasons:
  assumes "score_result L user_lat user_lon result = Inr info"
  shows "score info = int (length (reasons info))"
proof -
  from assms obtain sr where
    d: "score_distance L user_lat user_lon result = Inr sr" and
    i: "info = make_project_info result (score_surroundings result (score_facilities result sr))"
    by (rule score_result_Inr)
  have "fst sr = int (length (snd sr))"
    using score_distance_cases [OF d] by auto
  then show ?thesis
    by (simp add: i score_make_project_info reasons_make_project_info)
qed

lemma set_sort_recommendations: "set (sort_recommendations recs) = set recs"
  by (simp add: sort_recommendations_def)

text \<open>A two-component geo value with a component that does not parse raises ValueError.\<close>

lemma score_distance_unparsable:
  assumes "result ''geo'' = Some geo" and "split_str '','' geo = [lat, lon]"
    and "float_of_str L lat = None \<or> float_of_str L lon = None"
  shows "score_distance L user_lat user_lon result = Inl ValueError"
  using assms
  by (auto simp: score_distance_def to_float_def bind_exn_def split: option.splits)

text \<open>A geo value that does not have two components raises nothing and gives no point.\<close>

lemma score_distance_wrong_count:
  assumes "result ''geo'' = Some geo" and "length (split_str '','' geo) \<noteq> 2"
  shows "score_distance L user_lat user_lon result = Inr (0, [])"
  using assms by (simp add: score_distance_def)

text \<open>
  C2. The claim is that a row whose geo value is malformed is still scored and presented.
  The code keeps a row whose geo value has one or three components, but the handler of
  the inner \<^verbatim>\<open>try\<close> ends in \<^verbatim>\<open>continue\<close>: a row whose geo value has two components that
  are not numbers is skipped. The batch of the single row with geo \<^verbatim>\<open>abc,def\<close> and the
  facility \<^verbatim>\<open>Pool\<close> leaves no recommendation, and the output is the notice for an empty
  result.
\<close>

theorem unparsable_geo_row_is_dropped:
  assumes "float_of_str L ''abc'' = None"
  shows "for_results L user_lat user_lon
           [[''geo'' \<mapsto> ''abc,def'', ''all_facilities'' \<mapsto> ''Pool'']] [] = Inr []
       \<and> run L work_latitude work_longitude
           (Inr [[''geo'' \<mapsto> ''abc,def'', ''all_facilities'' \<mapsto> ''Pool'']]) = msg_no_results"
proof -
  let ?row = "[''geo'' \<mapsto> ''abc,def'', ''all_facilities'' \<mapsto> ''Pool'']"
  have parts: "split_str '','' ''abc,def'' = [''abc'', ''def'']"
    by (simp add: split_str_def)
  have "score_distance L a b ?row = Inl ValueError" for a b
    by (rule score_distance_unparsable [where geo = "''abc,def''" and lat = "''abc''" and lon = "''def''"])
       (simp_all add: parts assms)
  then have skip: "score_result L a b ?row = Inl ValueError" for a b
    by (simp add: score_result_def bind_exn_def)
  then have loop: "for_results L a b [?row] [] = Inr []" for a b
    by simp
  then show ?thesis
    by (simp add: run_def build_response_def sort_recommendations_def)
qed

theorem unparsable_geo_row_is_dropped_witness:
  "float_of_str exact_lib ''abc'' = None
   \<and> run exact_lib None None
       (Inr [[''geo'' \<mapsto> ''abc,def'', ''all_facilities'' \<mapsto> ''Pool'']]) = msg_no_results"
proof -
  have h: "float_of_str exact_lib ''abc'' = None"
    by (simp add: decimal_of_str_def)
  from unparsable_geo_row_is_dropped [OF h, of _ _ None None] h show ?thesis
    by simp
qed

text \<open>
  C9. Every candidate that the loop appends has a score equal to the number of its
  reasons, and so has every candidate of the ranked list and of the five presented.
\<close>

theorem score_equals_number_of_reasons:
  assumes "for_results L user_lat user_lon bindings [] = Inr recommendations"
  shows "(\<forall>rec \<in> set recommendations. score rec = int (length (reasons rec)))
       \<and> (\<forall>rec \<in> set (sort_recommendations recommendations). score rec = int (length (reasons rec)))
       \<and> (\<forall>rec \<in> set (take 5 (sort_recommendations recommendations)).
             score rec = int (length (reasons rec)))"
proof -
  have all: "score rec = int (length (reasons rec))" if "rec \<in> set recommendations" for rec
    using for_results_only_scored [OF assms that] score_result_counts_reasons by blast
  moreover have "set (take 5 (sort_recommendations recommendations)) \<subseteq> set recommendations"
    using set_take_subset [of 5 "sort_recommendations recommendations"]
    by (simp add: set_sort_recommendations)
  ultimately show ?thesis
    by (auto simp: set_sort_recommendations)
qed

lemma exact_decimals:
  "decimal_of_str ''0'' = Some 0"
  "decimal_of_str ''180'' = Some 180"
  "decimal_of_str ''10.848'' = Some (10848 / 1000)"
  "decimal_of_str ''106.787'' = Some (106787 / 1000)"
  by (simp_all add: decimal_of_str_def)

lemma exact_distance_half_turn: "calculate_distance exact_lib 0 0 0 180 = Inr (6371 * pi)"
  by (simp add: calculate_distance_def exact_lib_def bind_exn_def atan2_real_def)

lemma half_turn_is_far: "\<not> 6371 * pi \<le> (5::real)"
  using pi_ge_two by simp

lemma score_distance_no_geo:
  "result ''geo'' = None \<Longrightarrow> score_distance L user_lat user_lon result = Inr (0, [])"
  by (simp add: score_distance_def)

lemma score_result_no_geo:
  "result ''geo'' = None \<Longrightarrow>
   score_result L user_lat user_lon result
     = Inr (make_project_info result (score_surroundings result (score_facilities result (0, []))))"
  by (simp add: score_result_def score_distance_no_geo bind_exn_def)

theorem score_equals_number_of_reasons_witness:
  "\<exists>recommendations.
      for_results exact_lib ''10.848'' ''106.787''
        [[''geo'' \<mapsto> ''10.848,106.787'', ''all_facilities'' \<mapsto> ''Pool, Gym''],
         [''all_surroundings'' \<mapsto> ''Park'']] [] = Inr recommendations
    \<and> length recommendations = 2
    \<and> (\<forall>rec \<in> set (take 5 (sort_recommendations recommendations)).
          score rec = int (length (reasons rec)))"
proof -
  let ?a = "[''geo'' \<mapsto> ''10.848,106.787'', ''all_facilities'' \<mapsto> ''Pool, Gym'']"
  let ?b = "[''all_surroundings'' \<mapsto> ''Park'']"
  have parts: "split_str '','' ''10.848,106.787'' = [''10.848'', ''106.787'']"
    by (simp add: split_str_def)
  have "score_distance exact_lib ''10.848'' ''106.787'' ?a
           = Inr (1, [reason_distance_prefix @ ''0.0'' @ ''km''])"
    by (simp add: score_distance_def parts to_float_def exact_decimals bind_exn_def
                  exact_distance_same_point fixed_1_def)
  then obtain ia where a: "score_result exact_lib ''10.848'' ''106.787'' ?a = Inr ia"
    by (simp add: score_result_def bind_exn_def)
  have "score_distance exact_lib ''10.848'' ''106.787'' ?b = Inr (0, [])"
    by (rule score_distance_no_geo) simp
  then obtain ib where b: "score_result exact_lib ''10.848'' ''106.787'' ?b = Inr ib"
    by (simp add: score_result_def bind_exn_def)
  have run: "for_results exact_lib ''10.848'' ''106.787'' [?a, ?b] [] = Inr [ia, ib]"
    by (simp add: a b)
  from score_equals_number_of_reasons [OF run] run show ?thesis
    by simp
qed

text \<open>
  C10. A facilities (or surroundings) binding that is present with the empty string as
  its value splits into the one-element list of the empty string: the score grows by one
  and one reason, the bare prefix, is appended. The empty value is one item, not none.
\<close>

theorem empty_value_is_one_item:
  "split_str '', '' '''' = ['''']
   \<and> (result ''all_facilities'' = Some '''' \<longrightarrow>
        spec_facilities result = [''''] \<and>
        score_facilities result (s, rs) = (s + 1, rs @ [reason_facility_prefix @ '''']))
   \<and> (result ''all_surroundings'' = Some '''' \<longrightarrow>
        spec_surroundings result = [''''] \<and>
        score_surroundings result (s, rs) = (s + 1, rs @ [reason_surrounding_prefix @ '''']))
   \<and> (score_distance L user_lat user_lon result = Inr (s, rs) \<and>
        result ''all_facilities'' = Some '''' \<and> result ''all_surroundings'' = Some '''' \<longrightarrow>
        map_sum id (\<lambda>info. (score info, reasons info)) (score_result L user_lat user_lon result)
          = Inr (s + 2, rs @ [reason_facility_prefix, reason_surrounding_prefix]))"
proof -
  have e: "split_str '', '' '''' = ['''']"
    by (simp add: split_str_def)
  have row: "map_sum id (\<lambda>info. (score info, reasons info)) (score_result L user_lat user_lon result)
          = Inr (s + 2, rs @ [reason_facility_prefix, reason_surrounding_prefix])"
    if "score_distance L user_lat user_lon result = Inr (s, rs)"
      and "result ''all_facilities'' = Some ''''" and "result ''all_surroundings'' = Some ''''"
    using that
    by (simp add: score_result_def bind_exn_def make_project_info_def
                  score_facilities_def score_surroundings_def e)
  show ?thesis
    using row by (simp add: e spec_facilities_def spec_surroundings_def
                            score_facilities_def score_surroundings_def)
qed

theorem empty_value_is_one_item_witness:
  "[''all_facilities'' \<mapsto> '''', ''all_surroundings'' \<mapsto> ''''] ''all_facilities'' = Some ''''
   \<and> [''all_facilities'' \<mapsto> '''', ''all_surroundings'' \<mapsto> ''''] ''all_surroundings'' = Some ''''
   \<and> score_distance exact_lib ''10.848'' ''106.787''
        [''all_facilities'' \<mapsto> '''', ''all_surroundings'' \<mapsto> ''''] = Inr (0, [])
   \<and> score_facilities [''all_facilities'' \<mapsto> '''', ''all_surroundings'' \<mapsto> ''''] (0, [])
        = (1, [reason_facility_prefix])
   \<and> score_surroundings [''all_facilities'' \<mapsto> '''', ''all_surroundings'' \<mapsto> ''''] (1, [reason_facility_prefix])
        = (2, [reason_facility_prefix, reason_surrounding_prefix])
   \<and> map_sum id (\<lambda>info. (score info, reasons info))
        (score_result exact_lib ''10.848'' ''106.787''
           [''all_facilities'' \<mapsto> '''', ''all_surroundings'' \<mapsto> ''''])
        = Inr (2, [reason_facility_prefix, reason_surrounding_prefix])"
proof -
  let ?row = "[''all_facilities'' \<mapsto> '''', ''all_surroundings'' \<mapsto> '''']"
  have f: "?row ''all_facilities'' = Some ''''" and g: "?row ''all_surroundings'' = Some ''''"
    by simp_all
  have d: "score_distance exact_lib ''10.848'' ''106.787'' ?row = Inr (0, [])"
    by (rule score_distance_no_geo) simp
  note first = empty_value_is_one_item
    [where result = ?row and s = 0 and rs = "[]" and L = exact_lib
       and user_lat = "''10.848''" and user_lon = "''106.787''"]
  note second = empty_value_is_one_item
    [where result = ?row and s = 1 and rs = "[reason_facility_prefix]" and L = exact_lib
       and user_lat = "''10.848''" and user_lon = "''106.787''"]
  from first f have 1: "score_facilities ?row (0, []) = (1, [reason_facility_prefix])"
    by simp
  from second g have 2: "score_surroundings ?row (1, [reason_facility_prefix])
        = (2, [reason_facility_prefix, reason_surrounding_prefix])"
    by simp
  from first f g d have 3: "map_sum id (\<lambda>info. (score info, reasons info))
        (score_result exact_lib ''10.848'' ''106.787'' ?row)
        = Inr (2, [reason_facility_prefix, reason_surrounding_prefix])"
    by simp
  from f g d 1 2 3 show ?thesis by blast
qed

text \<open>
  Whatever score a row gets, the loop appends it and the ranking keeps it. A row whose
  coordinate is farther than 5 km from the reference gets no distance point and no
  distance reason: its score and reasons come from the facilities and surroundings alone.
  A row with no geo binding, or with a geo value without exactly two components, and with
  no facilities and no surroundings gets the score 0 and no reason.
\<close>

lemma scored_rows_are_never_excluded:
  "(score_result L user_lat user_lon result = Inr info \<and> result \<in> set bindings \<and>
    for_results L user_lat user_lon bindings [] = Inr recommendations
      \<longrightarrow> info \<in> set recommendations \<and> info \<in> set (sort_recommendations recommendations))
   \<and> (result ''geo'' = Some geo \<and> split_str '','' geo = [lat, lon] \<and>
       float_of_str L user_lat = Some ref_lat \<and> float_of_str L user_lon = Some ref_lon \<and>
       float_of_str L lat = Some cand_lat \<and> float_of_str L lon = Some cand_lon \<and>
       calculate_distance L ref_lat ref_lon cand_lat cand_lon = Inr d \<and> \<not> f_le L d (float_of_int L 5)
      \<longrightarrow> (\<exists>info'. score_result L user_lat user_lon result = Inr info' \<and>
             score info' = int (length (spec_facilities result)) + int (length (spec_surroundings result)) \<and>
             reasons info' =
               map (\<lambda>facility. reason_facility_prefix @ facility) (spec_facilities result) @
               map (\<lambda>surrounding. reason_surrounding_prefix @ surrounding) (spec_surroundings result)))
   \<and> ((case result ''geo'' of None \<Rightarrow> True | Some geo \<Rightarrow> length (split_str '','' geo) \<noteq> 2) \<and>
       result ''all_facilities'' = None \<and> result ''all_surroundings'' = None
      \<longrightarrow> (\<exists>info'. score_result L user_lat user_lon result = Inr info' \<and>
             score info' = 0 \<and> reasons info' = []))"
  (is "?kept \<and> ?far \<and> ?empty")
proof -
  have kept: ?kept
  proof (intro impI, elim conjE)
    assume "score_result L user_lat user_lon result = Inr info" and "result \<in> set bindings"
      and "for_results L user_lat user_lon bindings [] = Inr recommendations"
    from for_results_keeps_scored [OF this(3) this(2) this(1)]
    show "info \<in> set recommendations \<and> info \<in> set (sort_recommendations recommendations)"
      by (simp add: set_sort_recommendations)
  qed
  have far: ?far
  proof (intro impI, elim conjE)
    assume "result ''geo'' = Some geo" and "split_str '','' geo = [lat, lon]"
      and "float_of_str L user_lat = Some ref_lat" and "float_of_str L user_lon = Some ref_lon"
      and "float_of_str L lat = Some cand_lat" and "float_of_str L lon = Some cand_lon"
      and "calculate_distance L ref_lat ref_lon cand_lat cand_lon = Inr d" and "\<not> f_le L d (float_of_int L 5)"
    then have "score_distance L user_lat user_lon result = Inr (0, [])"
      by (simp add: score_distance_def to_float_def bind_exn_def)
    then show "\<exists>info'. score_result L user_lat user_lon result = Inr info' \<and>
             score info' = int (length (spec_facilities result)) + int (length (spec_surroundings result)) \<and>
             reasons info' =
               map (\<lambda>facility. reason_facility_prefix @ facility) (spec_facilities result) @
               map (\<lambda>surrounding. reason_surrounding_prefix @ surrounding) (spec_surroundings result)"
      by (simp add: score_result_def bind_exn_def score_make_project_info reasons_make_project_info)
  qed
  have empty: ?empty
  proof (intro impI, elim conjE)
    assume g: "case result ''geo'' of None \<Rightarrow> True | Some geo \<Rightarrow> length (split_str '','' geo) \<noteq> 2"
      and n: "result ''all_facilities'' = None" "result ''all_surroundings'' = None"
    have "score_distance L user_lat user_lon result = Inr (0, [])"
      using g by (simp add: score_distance_def split: option.splits)
    with n show "\<exists>info'. score_result L user_lat user_lon result = Inr info' \<and>
             score info' = 0 \<and> reasons info' = []"
      by (simp add: score_result_def bind_exn_def score_make_project_info reasons_make_project_info
                    spec_facilities_def spec_surroundings_def)
  qed
  show ?thesis by (rule conjI [OF kept conjI [OF far empty]])
qed

lemma scored_rows_are_never_excluded_example:
  "\<exists>far_info zero_info recommendations.
      score_result exact_lib ''0'' ''0'' [''geo'' \<mapsto> ''0,180'', ''all_facilities'' \<mapsto> ''Pool''] = Inr far_info
    \<and> score_result exact_lib ''0'' ''0'' Map.empty = Inr zero_info
    \<and> for_results exact_lib ''0'' ''0''
         [[''geo'' \<mapsto> ''0,180'', ''all_facilities'' \<mapsto> ''Pool''], Map.empty] [] = Inr recommendations
    \<and> \<not> f_le exact_lib (6371 * pi) (float_of_int exact_lib 5)
    \<and> score far_info = 1 \<and> reasons far_info = [reason_facility_prefix @ ''Pool'']
    \<and> score zero_info = 0 \<and> reasons zero_info = []
    \<and> far_info \<in> set (sort_recommendations recommendations)
    \<and> zero_info \<in> set (sort_recommendations recommendations)"
proof -
  let ?far = "[''geo'' \<mapsto> ''0,180'', ''all_facilities'' \<mapsto> ''Pool'']"
  let ?zero = "Map.empty :: result"
  have parts: "split_str '','' ''0,180'' = [''0'', ''180'']"
    by (simp add: split_str_def)
  have fac: "spec_facilities ?far = [''Pool'']" and sur: "spec_surroundings ?far = []"
    by (simp_all add: spec_facilities_def spec_surroundings_def split_str_def)
  have notle: "\<not> f_le exact_lib (6371 * pi) (float_of_int exact_lib 5)"
    using half_turn_is_far by simp
  note far = scored_rows_are_never_excluded
    [where L = exact_lib and user_lat = "''0''" and user_lon = "''0''" and result = ?far
       and geo = "''0,180''" and lat = "''0''" and lon = "''180''"
       and ref_lat = 0 and ref_lon = 0 and cand_lat = 0 and cand_lon = 180 and d = "6371 * pi",
     THEN conjunct2, THEN conjunct1, rule_format]
  have "\<exists>info'. score_result exact_lib ''0'' ''0'' ?far = Inr info' \<and>
          score info' = int (length (spec_facilities ?far)) + int (length (spec_surroundings ?far)) \<and>
          reasons info' =
            map (\<lambda>facility. reason_facility_prefix @ facility) (spec_facilities ?far) @
            map (\<lambda>surrounding. reason_surrounding_prefix @ surrounding) (spec_surroundings ?far)"
    by (rule far) (simp add: parts exact_decimals exact_distance_half_turn half_turn_is_far)
  then obtain far_info where
    f: "score_result exact_lib ''0'' ''0'' ?far = Inr far_info"
       "score far_info = 1" "reasons far_info = [reason_facility_prefix @ ''Pool'']"
    by (auto simp: fac sur)
  note zero = scored_rows_are_never_excluded
    [where L = exact_lib and user_lat = "''0''" and user_lon = "''0''" and result = ?zero,
     THEN conjunct2, THEN conjunct2, rule_format]
  have "\<exists>info'. score_result exact_lib ''0'' ''0'' ?zero = Inr info' \<and>
          score info' = 0 \<and> reasons info' = []"
    by (rule zero) simp
  then obtain zero_info where
    z: "score_result exact_lib ''0'' ''0'' ?zero = Inr zero_info"
       "score zero_info = 0" "reasons zero_info = []"
    by auto
  have loop: "for_results exact_lib ''0'' ''0'' [?far, ?zero] [] = Inr [far_info, zero_info]"
    by (simp add: f(1) z(1))
  note kept = scored_rows_are_never_excluded
    [where L = exact_lib and user_lat = "''0''" and user_lon = "''0''"
       and bindings = "[?far, ?zero]" and recommendations = "[far_info, zero_info]",
     THEN conjunct1, rule_format]
  have k1: "far_info \<in> set (sort_recommendations [far_info, zero_info])"
    using kept [where result = ?far and info = far_info] f(1) loop by simp
  have k2: "zero_info \<in> set (sort_recommendations [far_info, zero_info])"
    using kept [where result = ?zero and info = zero_info] z(1) loop by simp
  from f z loop notle k1 k2 show ?thesis by blast
qed

text \<open>
  C5. The claim is that no candidate is left out of the ranking, in particular not one
  without coordinate, facilities and surroundings, which is to get the score 0 and no
  reason. That holds for every row the loop scores (\<open>scored_rows_are_never_excluded\<close>).
  A row whose geo value has two components that are not numbers has no coordinate either,
  but it gets no score at all: \<^verbatim>\<open>float\<close> raises ValueError and the handler goes on to the
  next row. Of the two rows below, neither with facilities or surroundings, only the one
  without a geo binding is ranked.
\<close>

theorem unparsable_geo_row_is_not_ranked:
  assumes "float_of_str L ''abc'' = None"
  shows "scored L user_lat user_lon [''project_name'' \<mapsto> ''A'', ''geo'' \<mapsto> ''abc,def''] = None
       \<and> for_results L user_lat user_lon
           [[''project_name'' \<mapsto> ''A'', ''geo'' \<mapsto> ''abc,def''], [''project_name'' \<mapsto> ''B'']] []
           = Inr [make_project_info [''project_name'' \<mapsto> ''B''] (0, [])]
       \<and> map project_name
             (sort_recommendations [make_project_info [''project_name'' \<mapsto> ''B''] (0, [])])
           = [''B'']"
proof -
  let ?a = "[''project_name'' \<mapsto> ''A'', ''geo'' \<mapsto> ''abc,def'']"
  let ?b = "[''project_name'' \<mapsto> ''B'']"
  have parts: "split_str '','' ''abc,def'' = [''abc'', ''def'']"
    by (simp add: split_str_def)
  have "score_distance L user_lat user_lon ?a = Inl ValueError"
    by (rule score_distance_unparsable [where geo = "''abc,def''" and lat = "''abc''" and lon = "''def''"])
       (simp_all add: parts assms)
  then have a: "score_result L user_lat user_lon ?a = Inl ValueError"
    by (simp add: score_result_def bind_exn_def)
  have b: "score_result L user_lat user_lon ?b = Inr (make_project_info ?b (0, []))"
    by (simp add: score_result_no_geo score_facilities_def score_surroundings_def)
  have "for_results L user_lat user_lon [?a, ?b] [] = Inr [make_project_info ?b (0, [])]"
    by (simp add: a b)
  moreover have "scored L user_lat user_lon ?a = None"
    by (simp add: scored_def a)
  moreover have "map project_name (sort_recommendations [make_project_info ?b (0, [])]) = [''B'']"
    by (simp add: sort_recommendations_def make_project_info_def get_value_def)
  ultimately show ?thesis by simp
qed

theorem unparsable_geo_row_is_not_ranked_witness:
  "float_of_str exact_lib ''abc'' = None
   \<and> for_results exact_lib ''10.848'' ''106.787''
       [[''project_name'' \<mapsto> ''A'', ''geo'' \<mapsto> ''abc,def''], [''project_name'' \<mapsto> ''B'']] []
       = Inr [make_project_info [''project_name'' \<mapsto> ''B''] (0, [])]"
proof -
  have h: "float_of_str exact_lib ''abc'' = None"
    by (simp add: decimal_of_str_def)
  from unparsable_geo_row_is_not_ranked [OF h, of "''10.848''" "''106.787''"] h show ?thesis
    by simp
qed

section \<open>Ranking\<close>

text \<open>
  C3. The ranking is a stable sort by score, highest first: the ranked list is a
  rearrangement of the input, its scores never increase, and for every score the
  candidates with that score are in the ranked list in the order they had in the input.
\<close>

theorem ranking_is_stable_descending:
  "filter (\<lambda>rec. score rec = k) (sort_recommendations recommendations)
     = filter (\<lambda>rec. score rec = k) recommendations
   \<and> sorted_wrt (\<lambda>a b. score b \<le> score a) (sort_recommendations recommendations)
   \<and> mset (sort_recommendations recommendations) = mset recommendations"
proof -
  have "filter (\<lambda>rec. - score rec = - k) (sort_key (\<lambda>x. - score x) recommendations)
          = filter (\<lambda>rec. - score rec = - k) recommendations"
    by (rule sort_key_stable)
  then have stable: "filter (\<lambda>rec. score rec = k) (sort_recommendations recommendations)
     = filter (\<lambda>rec. score rec = k) recommendations"
    by (simp add: sort_recommendations_def)
  have "sorted (map (\<lambda>x. - score x) (sort_key (\<lambda>x. - score x) recommendations))"
    by (rule sorted_sort_key)
  then have desc: "sorted_wrt (\<lambda>a b. score b \<le> score a) (sort_recommendations recommendations)"
    by (simp add: sort_recommendations_def sorted_map)
  have "mset (sort_recommendations recommendations) = mset recommendations"
    by (simp add: sort_recommendations_def)
  with stable desc show ?thesis by simp
qed

theorem ranking_is_stable_descending_witness:
  "filter (\<lambda>rec. score rec = 1)
     (sort_recommendations
        [make_project_info [''project_name'' \<mapsto> ''A''] (1, [''a'']),
         make_project_info [''project_name'' \<mapsto> ''C''] (2, [''c'', ''c'']),
         make_project_info [''project_name'' \<mapsto> ''B''] (1, [''b''])])
   = [make_project_info [''project_name'' \<mapsto> ''A''] (1, [''a'']),
      make_project_info [''project_name'' \<mapsto> ''B''] (1, [''b''])]"
  using ranking_is_stable_descending
    [of 1 "[make_project_info [''project_name'' \<mapsto> ''A''] (1, [''a'']),
            make_project_info [''project_name'' \<mapsto> ''C''] (2, [''c'', ''c'']),
            make_project_info [''project_name'' \<mapsto> ''B''] (1, [''b''])]"]
  by (simp add: make_project_info_def)

section \<open>Presentation\<close>

lemma add_reasons_append: "add_reasons (a @ b) rs = a @ add_reasons b rs"
  by (induction rs arbitrary: b) simp_all

lemma add_entry_append: "add_entry response rec = response @ entry_text rec"
  using add_reasons_append [of response _ "reasons rec"]
  by (simp add: add_entry_def entry_text_def)

lemma add_entries_concat: "add_entries response recs = response @ concat (map entry_text recs)"
  by (induction recs arbitrary: response) (simp_all add: add_entry_append)

text \<open>
  C4. For every batch the output is the error notice (the loop was left by an exception),
  the notice for an empty result, or the header followed by the entries of the first five
  candidates of the ranked list, in that order, and of no other: at most five entries,
  however many candidates were scored.
\<close>

theorem presents_at_most_five:
  "run L work_latitude work_longitude (Inr bindings)
     = (case for_results L (user_lat_of work_latitude) (user_lon_of work_longitude) bindings [] of
          Inl e \<Rightarrow> msg_query_error @ e
        | Inr recommendations \<Rightarrow>
            if recommendations = [] then msg_no_results
            else response_header
                 @ concat (map entry_text (take 5 (sort_recommendations recommendations))))
   \<and> length (take 5 (sort_recommendations recs)) = min 5 (length recs)
   \<and> length (take 5 (sort_recommendations recs)) \<le> 5
   \<and> build_response recs
       = (if recs = [] then msg_no_results else response_header @ concat (map entry_text (take 5 recs)))"
proof -
  have empty_iff: "sort_recommendations xs = [] \<longleftrightarrow> xs = []" for xs
    using length_sort [of "\<lambda>x. - score x" xs]
    by (simp only: sort_recommendations_def length_0_conv [symmetric])
  have present: "build_response xs
       = (if xs = [] then msg_no_results else response_header @ concat (map entry_text (take 5 xs)))"
    for xs
    by (simp add: build_response_def add_entries_concat)
  have "run L work_latitude work_longitude (Inr bindings)
     = (case for_results L (user_lat_of work_latitude) (user_lon_of work_longitude) bindings [] of
          Inl e \<Rightarrow> msg_query_error @ e
        | Inr recommendations \<Rightarrow>
            if recommendations = [] then msg_no_results
            else response_header
                 @ concat (map entry_text (take 5 (sort_recommendations recommendations))))"
    by (simp add: run_def present empty_iff split: sum.splits)
  moreover have "length (sort_recommendations recs) = length recs"
    by (simp add: sort_recommendations_def)
  ultimately show ?thesis
    using present [of recs] by simp
qed

theorem presents_at_most_five_witness:
  "\<exists>recommendations.
      for_results exact_lib (user_lat_of None) (user_lon_of None)
        [[''project_name'' \<mapsto> ''P1''], [''project_name'' \<mapsto> ''P2''], [''project_name'' \<mapsto> ''P3''],
         [''project_name'' \<mapsto> ''P4''], [''project_name'' \<mapsto> ''P5''], [''project_name'' \<mapsto> ''P6'']] []
        = Inr recommendations
    \<and> length recommendations = 6
    \<and> length (take 5 (sort_recommendations recommendations)) = 5
    \<and> run exact_lib None None
        (Inr [[''project_name'' \<mapsto> ''P1''], [''project_name'' \<mapsto> ''P2''], [''project_name'' \<mapsto> ''P3''],
              [''project_name'' \<mapsto> ''P4''], [''project_name'' \<mapsto> ''P5''], [''project_name'' \<mapsto> ''P6'']])
        = response_header @ concat (map entry_text (take 5 (sort_recommendations recommendations)))"
proof -
  let ?rows = "[[''project_name'' \<mapsto> ''P1''], [''project_name'' \<mapsto> ''P2''], [''project_name'' \<mapsto> ''P3''],
                [''project_name'' \<mapsto> ''P4''], [''project_name'' \<mapsto> ''P5''], [''project_name'' \<mapsto> ''P6'']]"
  have "\<exists>recommendations.
          for_results exact_lib (user_lat_of None) (user_lon_of None) ?rows [] = Inr recommendations
        \<and> length recommendations = 6"
    by (simp add: score_result_no_geo)
  then obtain recommendations where
    loop: "for_results exact_lib (user_lat_of None) (user_lon_of None) ?rows [] = Inr recommendations"
    and six: "length recommendations = 6"
    by blast
  from six have "recommendations \<noteq> []" by auto
  with presents_at_most_five [of exact_lib None None ?rows recommendations] six loop show ?thesis
    by (intro exI [of _ recommendations]) simp
qed

text \<open>
  C6. For an empty list of bindings the output is the notice for an empty result, and
  that notice is not the header followed by entries.
\<close>

theorem no_bindings_gives_notice:
  "run L work_latitude work_longitude (Inr []) = msg_no_results
   \<and> msg_no_results \<noteq> response_header @ concat (map entry_text recs)
   \<and> msg_no_results \<noteq> add_entries response_header recs"
proof -
  have "hd msg_no_results \<noteq> hd (response_header @ rest)" for rest
    by (simp add: msg_no_results_def response_header_def)
  then have "msg_no_results \<noteq> response_header @ rest" for rest
    by metis
  then show ?thesis
    by (simp add: run_def build_response_def sort_recommendations_def add_entries_concat)
qed

section \<open>Reference coordinates\<close>

text \<open>
  C8. The claim is that a missing slot makes the reference point the default pair. In the
  code each slot falls back on its own: with the latitude slot unset and the longitude
  slot holding \<^verbatim>\<open>100.0\<close>, the reference point is \<^verbatim>\<open>("10.848", "100.0")\<close>.
\<close>

theorem reference_default_not_as_a_pair:
  "\<not> ((None = (None :: string option) \<or> Some ''100.0'' = (None :: string option))
       \<longrightarrow> (user_lat_of None, user_lon_of (Some ''100.0'')) = (''10.848'', ''106.787''))"
  by (simp add: user_lat_of_def user_lon_of_def slot_or_def)

text \<open>
  C8, amended. Each reference coordinate falls back on its own default when its slot is
  unset or holds the empty string, the latitude on \<^verbatim>\<open>"10.848"\<close> and the longitude on
  \<^verbatim>\<open>"106.787"\<close>; a slot that holds a non-empty string is used unchanged. The method
  depends on the slots through these two strings only.
\<close>

theorem reference_defaults_per_coordinate:
  "(work_latitude = None \<or> work_latitude = Some '''' \<longrightarrow> user_lat_of work_latitude = ''10.848'')
   \<and> (work_longitude = None \<or> work_longitude = Some '''' \<longrightarrow> user_lon_of work_longitude = ''106.787'')
   \<and> (work_latitude = Some v \<and> v \<noteq> '''' \<longrightarrow> user_lat_of work_latitude = v)
   \<and> (work_longitude = Some w \<and> w \<noteq> '''' \<longrightarrow> user_lon_of work_longitude = w)
   \<and> run L work_latitude work_longitude fetched
       = run L (Some (user_lat_of work_latitude)) (Some (user_lon_of work_longitude)) fetched"
proof -
  have "slot_or (Some (slot_or slot d)) d = slot_or slot d" for slot d
    by (simp add: slot_or_def split: option.splits)
  then have "run L work_latitude work_longitude fetched
       = run L (Some (user_lat_of work_latitude)) (Some (user_lon_of work_longitude)) fetched"
    by (simp add: run_def user_lat_of_def user_lon_of_def)
  then show ?thesis
    by (auto simp: user_lat_of_def user_lon_of_def slot_or_def)
qed

theorem reference_defaults_per_coordinate_witness:
  "user_lat_of None = ''10.848'' \<and> user_lon_of (Some ''100.0'') = ''100.0''
   \<and> user_lat_of (Some ''10.0'') = ''10.0'' \<and> user_lon_of (Some '''') = ''106.787''"
  using reference_defaults_per_coordinate
          [of None "Some ''100.0''" "''10.0''" "''100.0''" exact_lib "Inr []"]
        reference_defaults_per_coordinate
          [of "Some ''10.0''" "Some ''''" "''10.0''" "''100.0''" exact_lib "Inr []"]
  by simp

section \<open>The distance function\<close>

lemma round_binary64_eval:
  assumes "2 powr of_int e \<le> \<bar>x\<bar>" and "\<bar>x\<bar> < 2 powr (of_int e + 1)"
  shows "round_binary64 x
           = of_int (round_half_even (x * 2 powr (52 - of_int e))) * 2 powr (of_int e - 52)"
proof -
  have "0 < 2 powr real_of_int e"
    by simp
  with assms(1) have pos: "0 < \<bar>x\<bar>"
    by linarith
  then have "\<lfloor>log 2 \<bar>x\<bar>\<rfloor> = e"
    using assms by (simp add: floor_log_eq_powr_iff)
  with pos show ?thesis
    by (simp add: round_binary64_def Let_def)
qed

text \<open>The function raises what its second square root raises, once every earlier call returns.\<close>

lemma calculate_distance_trace:
  assumes "m_radians L lat1 = r1" and "m_radians L lon1 = r2"
    and "m_radians L lat2 = r3" and "m_radians L lon2 = r4"
    and "f_div L (f_sub L r3 r1) (float_of_int L 2) = h1"
    and "m_sin L h1 = Inr s1" and "f_pow L s1 2 = Inr p1"
    and "m_cos L r1 = Inr c1" and "m_cos L r3 = Inr c2"
    and "f_div L (f_sub L r4 r2) (float_of_int L 2) = h2"
    and "m_sin L h2 = Inr s2" and "f_pow L s2 2 = Inr p2"
    and "f_add L p1 (f_mul L (f_mul L c1 c2) p2) = a"
    and "m_sqrt L a = Inr q"
    and "m_sqrt L (f_sub L (float_of_int L 1) a) = Inl e"
  shows "calculate_distance L lat1 lon1 lat2 lon2 = Inl e"
  using assms by (simp add: calculate_distance_def bind_exn_def)

text \<open>
  C7. The claim is that the distance is symmetric, zero from a point to itself, and
  finite for all finite inputs. The first two hold (\<open>calculate_distance_symmetric\<close>,
  \<open>calculate_distance_same_point\<close>). The third does not: the function does not keep
  \<^verbatim>\<open>a\<close> below 1, and for two points that are nearly antipodal rounding takes it above.
  From (8.061, -6.275) to (-8.061, 173.725), in binary64 arithmetic and with the values
  of \<^verbatim>\<open>sin\<close>, \<^verbatim>\<open>cos\<close> and \<^verbatim>\<open>pow\<close> that CPython returns, \<^verbatim>\<open>a\<close> is 1.0000000000000002 and
  \<^verbatim>\<open>sqrt(1-a)\<close> raises ValueError: the function returns no distance.
\<close>

theorem calculate_distance_raises_near_antipode:
  assumes "ieee_arith L" and "libm_observed L"
  shows "calculate_distance L (round_binary64 8.061) (round_binary64 (- 6.275))
           (round_binary64 (- 8.061)) (round_binary64 173.725) = Inl ValueError"
proof -
  note ev = round_half_even_def Let_def powr_neg_numeral
  from assms(1) have ops:
    "float_of_int L = (\<lambda>n. round_binary64 (of_int n))"
    "f_add L = (\<lambda>x y. round_binary64 (x + y))"
    "f_sub L = (\<lambda>x y. round_binary64 (x - y))"
    "f_mul L = (\<lambda>x y. round_binary64 (x * y))"
    "f_div L = (\<lambda>x y. round_binary64 (x / y))"
    "m_radians L = (\<lambda>x. round_binary64 (x * deg_to_rad))"
    "m_sqrt L = (\<lambda>x. if x < 0 then Inl ValueError else Inr (round_binary64 (sqrt x)))"
    by (simp_all add: ieee_arith_def)
  from assms(2) have
    S1: "m_sin L (- 5068927157253445 / 36028797018963968) = Inr (- 1263055336724595 / 9007199254740992)" and
    P1: "f_pow L (- 1263055336724595 / 9007199254740992) 2 = Inr (2833837668753745 / 144115188075855872)" and
    C1: "m_cos L (5068927157253445 / 36028797018963968) = Inr (4459101076197371 / 4503599627370496)" and
    C2: "m_cos L (- 5068927157253445 / 36028797018963968) = Inr (4459101076197371 / 4503599627370496)" and
    S2: "m_sin L (884279719003555 / 562949953421312) = Inr 1" and
    P2: "f_pow L 1 2 = Inr 1"
    by (simp_all add: libm_observed_def)
  have lat1: "round_binary64 8.061 = 1134484893632299 / 140737488355328"
    by (subst round_binary64_eval [where e = 3]) (simp_all add: ev)
  have lon1: "round_binary64 (- 6.275) = - 3532510957718733 / 562949953421312"
    by (subst round_binary64_eval [where e = 2]) (simp_all add: ev)
  have lat2: "round_binary64 (- 8.061) = - 1134484893632299 / 140737488355328"
    by (subst round_binary64_eval [where e = 3]) (simp_all add: ev)
  have lon2: "round_binary64 173.725 = 6112405041132339 / 35184372088832"
    by (subst round_binary64_eval [where e = 7]) (simp_all add: ev)
  have one: "float_of_int L 1 = 1"
    unfolding ops by (subst round_binary64_eval [where e = 0]) (simp_all add: ev)
  have two: "float_of_int L 2 = 2"
    unfolding ops by (subst round_binary64_eval [where e = 1]) (simp_all add: ev)
  have R1: "m_radians L (1134484893632299 / 140737488355328) = 5068927157253445 / 36028797018963968"
    unfolding ops deg_to_rad_def
    by (subst round_binary64_eval [where e = "- 3"]) (simp_all add: ev)
  have R2: "m_radians L (- 3532510957718733 / 562949953421312) = - 7891705225596171 / 72057594037927936"
    unfolding ops deg_to_rad_def
    by (subst round_binary64_eval [where e = "- 4"]) (simp_all add: ev)
  have R3: "m_radians L (- 1134484893632299 / 140737488355328) = - 5068927157253445 / 36028797018963968"
    unfolding ops deg_to_rad_def
    by (subst round_binary64_eval [where e = "- 3"]) (simp_all add: ev)
  have R4: "m_radians L (6112405041132339 / 35184372088832) = 426726372733035 / 140737488355328"
    unfolding ops deg_to_rad_def
    by (subst round_binary64_eval [where e = 1]) (simp_all add: ev)
  have dlat: "f_sub L (- 5068927157253445 / 36028797018963968) (5068927157253445 / 36028797018963968) = - 5068927157253445 / 18014398509481984"
    unfolding ops
    by (subst round_binary64_eval [where e = "- 2"]) (simp_all add: ev)
  have dlon: "f_sub L (426726372733035 / 140737488355328) (- 7891705225596171 / 72057594037927936) = 884279719003555 / 281474976710656"
    unfolding ops
    by (subst round_binary64_eval [where e = 1]) (simp_all add: ev)
  have "f_div L (- 5068927157253445 / 18014398509481984) 2 = - 5068927157253445 / 36028797018963968"
    unfolding ops
    by (subst round_binary64_eval [where e = "- 3"]) (simp_all add: ev)
  then have H1: "f_div L (f_sub L (- 5068927157253445 / 36028797018963968) (5068927157253445 / 36028797018963968)) (float_of_int L 2) = - 5068927157253445 / 36028797018963968"
    by (simp only: dlat two)
  have "f_div L (884279719003555 / 281474976710656) 2 = 884279719003555 / 562949953421312"
    unfolding ops
    by (subst round_binary64_eval [where e = 0]) (simp_all add: ev)
  then have H2: "f_div L (f_sub L (426726372733035 / 140737488355328) (- 7891705225596171 / 72057594037927936)) (float_of_int L 2) = 884279719003555 / 562949953421312"
    by (simp only: dlon two)
  have m1: "f_mul L (4459101076197371 / 4503599627370496) (4459101076197371 / 4503599627370496) = 2207521100110971 / 2251799813685248"
    unfolding ops
    by (subst round_binary64_eval [where e = "- 1"]) (simp_all add: ev)
  have m2: "f_mul L (2207521100110971 / 2251799813685248) 1 = 2207521100110971 / 2251799813685248"
    unfolding ops
    by (subst round_binary64_eval [where e = "- 1"]) (simp_all add: ev)
  have "f_add L (2833837668753745 / 144115188075855872) (2207521100110971 / 2251799813685248) = 4503599627370497 / 4503599627370496"
    unfolding ops
    by (subst round_binary64_eval [where e = 0]) (simp_all add: ev)
  then have A: "f_add L (2833837668753745 / 144115188075855872) (f_mul L (f_mul L (4459101076197371 / 4503599627370496) (4459101076197371 / 4503599627370496)) 1) = 4503599627370497 / 4503599627370496"
    by (simp only: m1 m2)
  have Q: "m_sqrt L (4503599627370497 / 4503599627370496) = Inr (round_binary64 (sqrt (4503599627370497 / 4503599627370496)))"
    unfolding ops by simp
  have na: "f_sub L 1 (4503599627370497 / 4503599627370496) = - 1 / 4503599627370496"
    unfolding ops
    by (subst round_binary64_eval [where e = "- 52"]) (simp_all add: ev)
  have "m_sqrt L (- 1 / 4503599627370496) = Inl ValueError"
    unfolding ops by simp
  then have NA: "m_sqrt L (f_sub L (float_of_int L 1) (4503599627370497 / 4503599627370496)) = Inl ValueError"
    by (simp only: na one)
  show ?thesis
    unfolding lat1 lon1 lat2 lon2
    by (rule calculate_distance_trace [OF R1 R2 R3 R4 H1 S1 P1 C1 C2 H2 S2 P2 A Q NA])
qed

theorem calculate_distance_raises_near_antipode_witness:
  "ieee_arith binary64_lib \<and> libm_observed binary64_lib
   \<and> calculate_distance binary64_lib (round_binary64 8.061) (round_binary64 (- 6.275))
        (round_binary64 (- 8.061)) (round_binary64 173.725) = Inl ValueError"
proof -
  have arith: "ieee_arith binary64_lib"
    by (simp add: ieee_arith_def binary64_lib_def)
  have square: "round_binary64 ((1263055336724595 / 9007199254740992)\<^sup>2) = 2833837668753745 / 144115188075855872"
    by (subst round_binary64_eval [where e = "- 6"])
       (simp_all add: round_half_even_def Let_def powr_neg_numeral power2_eq_square)
  have unit: "round_binary64 1 = 1"
    by (subst round_binary64_eval [where e = 0])
       (simp_all add: round_half_even_def Let_def powr_neg_numeral)
  have libm: "libm_observed binary64_lib"
    unfolding libm_observed_def binary64_lib_def
    by (simp add: square unit)
  from calculate_distance_raises_near_antipode [OF arith libm] arith libm show ?thesis
    by simp
qed

text \<open>Symmetry, under laws that binary64 arithmetic and the exact reading both satisfy.\<close>

lemma calculate_distance_symmetric:
  assumes "symmetry_laws L neg"
  shows "calculate_distance L lat1 lon1 lat2 lon2 = calculate_distance L lat2 lon2 lat1 lon1"
proof -
  have
    sub: "\<And>x y. f_sub L x y = neg (f_sub L y x)" and
    half: "\<And>x. f_div L (neg x) (float_of_int L 2) = neg (f_div L x (float_of_int L 2))" and
    sine: "\<And>x. m_sin L (neg x) = map_sum id neg (m_sin L x)" and
    sq: "\<And>x. f_pow L (neg x) 2 = f_pow L x 2" and
    mul: "\<And>x y. f_mul L x y = f_mul L y x" and
    cosine: "\<And>x e. m_cos L x = Inl e \<Longrightarrow> e = ValueError"
    using assms unfolding symmetry_laws_def by blast+
  have part: "bind_exn (m_sin L (f_div L (f_sub L x y) (float_of_int L 2))) (\<lambda>s. bind_exn (f_pow L s 2) K)
            = bind_exn (m_sin L (f_div L (f_sub L y x) (float_of_int L 2))) (\<lambda>s. bind_exn (f_pow L s 2) K)"
    for x y and K :: "'a \<Rightarrow> exn + 'a"
  proof -
    have "f_div L (f_sub L x y) (float_of_int L 2) = neg (f_div L (f_sub L y x) (float_of_int L 2))"
      using sub [of x y] half by simp
    then show ?thesis
      by (cases "m_sin L (f_div L (f_sub L y x) (float_of_int L 2))")
         (simp_all add: sine sq bind_exn_def)
  qed
  have pair: "bind_exn (m_cos L x) (\<lambda>c1. bind_exn (m_cos L y) (\<lambda>c2. K (f_mul L c1 c2)))
            = bind_exn (m_cos L y) (\<lambda>c2. bind_exn (m_cos L x) (\<lambda>c1. K (f_mul L c2 c1)))"
    for x y and K :: "'a \<Rightarrow> exn + 'a"
    using cosine [of x] cosine [of y] mul
    by (cases "m_cos L x"; cases "m_cos L y") (simp_all add: bind_exn_def)
  show ?thesis
    unfolding calculate_distance_def Let_def
    by (subst part, subst pair, subst part) (rule refl)
qed

text \<open>
  The distance from a point to itself is the library's zero \<open>z\<close>, under laws on \<open>z\<close> and
  the constants, when the radians of each coordinate minus itself are \<open>z\<close> and the cosine
  of the latitude returns a value whose square times \<open>z\<close> is \<open>z\<close> (as for every finite
  coordinate in binary64).
\<close>

lemma calculate_distance_same_point:
  assumes "f_sub L (m_radians L lat) (m_radians L lat) = z"
    and "f_sub L (m_radians L lon) (m_radians L lon) = z"
    and "m_cos L (m_radians L lat) = Inr c" and "f_mul L (f_mul L c c) z = z"
    and "f_div L z (float_of_int L 2) = z" and "m_sin L z = Inr z" and "f_pow L z 2 = Inr z"
    and "f_add L z z = z" and "m_sqrt L z = Inr z"
    and "f_sub L (float_of_int L 1) z = float_of_int L 1"
    and "m_sqrt L (float_of_int L 1) = Inr (float_of_int L 1)"
    and "m_atan2 L z (float_of_int L 1) = z"
    and "f_mul L (float_of_int L 2) z = z" and "f_mul L (float_of_int L 6371) z = z"
  shows "calculate_distance L lat lon lat lon = Inr z"
  using assms by (simp add: calculate_distance_def bind_exn_def)

lemma exact_lib_symmetry_laws: "symmetry_laws exact_lib uminus"
  by (simp add: symmetry_laws_def exact_lib_def mult.commute)

lemma exact_distance_symmetric:
  "calculate_distance exact_lib lat1 lon1 lat2 lon2 = calculate_distance exact_lib lat2 lon2 lat1 lon1"
  by (rule calculate_distance_symmetric [OF exact_lib_symmetry_laws])

text \<open>In binary64 arithmetic the first two parts of the claim hold at every point.\<close>

lemma floor_minus_real: "\<lfloor>- x\<rfloor> = (if x = of_int \<lfloor>x\<rfloor> then - \<lfloor>x\<rfloor> else - \<lfloor>x\<rfloor> - 1)"
  for x :: real
  using ceiling_altdef [of x] ceiling_def [of x] by auto

lemma round_half_even_minus: "round_half_even (- x) = - round_half_even x"
  by (auto simp: round_half_even_def Let_def floor_minus_real)

lemma round_binary64_minus: "round_binary64 (- x) = - round_binary64 x"
  by (simp add: round_binary64_def Let_def round_half_even_minus)

lemma round_binary64_one: "round_binary64 1 = 1"
  by (subst round_binary64_eval [where e = 0])
     (simp_all add: round_half_even_def Let_def powr_neg_numeral)

lemma binary64_lib_symmetry_laws: "symmetry_laws binary64_lib uminus"
  unfolding symmetry_laws_def binary64_lib_def
  by (simp add: round_binary64_minus [symmetric] mult.commute)

lemma binary64_distance_symmetric:
  "calculate_distance binary64_lib lat1 lon1 lat2 lon2
     = calculate_distance binary64_lib lat2 lon2 lat1 lon1"
  by (rule calculate_distance_symmetric [OF binary64_lib_symmetry_laws])

lemma binary64_distance_same_point: "calculate_distance binary64_lib lat lon lat lon = Inr 0"
proof -
  have zero: "round_binary64 0 = 0"
    by (simp add: round_binary64_def)
  obtain c where c: "m_cos binary64_lib (m_radians binary64_lib lat) = Inr c"
    by (simp add: binary64_lib_def)
  show ?thesis
    by (rule calculate_distance_same_point [where c = c])
       (simp_all add: c, simp_all add: binary64_lib_def zero round_binary64_one atan2_real_def)
qed

end
